theory Spec2Isabelle
  imports Complex_Main
begin

text \<open>
  A shallow embedding of the task and submission lifecycle of the two-phase coding
  exercise pipeline: the SQLite store, the submission gate, the round-1 and round-2
  issuers with the retry sweep, the retrying notifier of the student side, and the
  evaluation pipeline. Each Python function is a HOL function of the same name. What a
  function takes from outside (the clock, \<^verbatim>\<open>uuid4\<close>, the outcome of an HTTP request, a
  storage fault, the cloned working tree, the scoring oracle, the browser) is an argument
  or a field of a record of surroundings, indexed by the position in the loop where the
  loop asks more than once; what it does to the outside (posts, sleeps, writes) is
  returned, as the new store or as a trace of events. An exception is a value: a branch of
  the function that raises or catches it.
\<close>

section \<open>The persistent store: \<^verbatim>\<open>src/database/database.py\<close>\<close>

text \<open>
  The four SQLite tables of \<^verbatim>\<open>DatabaseManager.init_database\<close> are lists of rows in
  insertion order. Every table has an \<^verbatim>\<open>INTEGER PRIMARY KEY AUTOINCREMENT\<close> column, so
  the store keeps, per table, the largest row id handed out so far. Text columns are
  \<open>string\<close>, the round is Python's unbounded \<open>int\<close>, a nullable column is an \<open>option\<close>.
  The JSON text of the \<^verbatim>\<open>attachments\<close> and \<^verbatim>\<open>checks\<close> columns is kept decoded
  (\<^verbatim>\<open>json.loads (json.dumps x) = x\<close> on lists of strings and of name/url objects).
  Connecting to the database file, which the constructor has opened before, is taken to
  succeed. An integer beyond the 64 bits of SQLite makes \<^verbatim>\<open>sqlite3\<close> raise where it is
  bound; the issuers pass the rounds 1 and 2 and no such integer can be stored, so rounds
  are taken to lie within 64 bits.
\<close>

type_synonym attachment = "string \<times> string"

record task_row =
  t_id :: nat
  t_timestamp :: string
  t_email :: string
  t_task :: string
  t_round :: int
  t_nonce :: string
  t_brief :: string
  t_attachments :: "attachment list"
  t_checks :: "string list"
  t_evaluation_url :: string
  t_endpoint :: string
  t_statuscode :: "int option"
  t_secret :: string

record repo_row =
  r_id :: nat
  r_timestamp :: string
  r_email :: string
  r_task :: string
  r_round :: int
  r_nonce :: string
  r_repo_url :: string
  r_commit_sha :: string
  r_pages_url :: string

record result_row =
  res_id :: nat
  res_timestamp :: string
  res_email :: string
  res_task :: string
  res_round :: int
  res_repo_url :: string
  res_commit_sha :: string
  res_pages_url :: string
  res_check_name :: string
  res_score :: real
  res_reason :: string
  res_logs :: string

record form_row =
  f_id :: nat
  f_timestamp :: string
  f_email :: string
  f_endpoint :: string
  f_secret :: string
  f_repo_url :: "string option"

record database =
  tasks :: "task_row list"
  tasks_seq :: nat
  repos :: "repo_row list"
  repos_seq :: nat
  results :: "result_row list"
  results_seq :: nat
  submissions :: "form_row list"
  submissions_seq :: nat

text \<open>\<^verbatim>\<open>init_database\<close> on a fresh file: four empty tables.\<close>

definition init_database :: database where
  "init_database =
     \<lparr>tasks = [], tasks_seq = 0, repos = [], repos_seq = 0,
      results = [], results_seq = 0, submissions = [], submissions_seq = 0\<rparr>"

subsection \<open>SQL comparison with NULL\<close>

text \<open>
  A bound parameter that is Python's \<^verbatim>\<open>None\<close> reaches SQLite as NULL. Comparing with NULL
  by \<^verbatim>\<open>=\<close> yields NULL (here \<open>None\<close>), \<^verbatim>\<open>AND\<close> is three-valued, and \<^verbatim>\<open>WHERE\<close> keeps a row
  only when its condition is true. The stored columns compared here are all declared
  \<^verbatim>\<open>NOT NULL\<close>, so the left operand is a plain value.
\<close>

definition sql_eq :: "'a \<Rightarrow> 'a option \<Rightarrow> bool option" where
  "sql_eq col param = (case param of None \<Rightarrow> None | Some v \<Rightarrow> Some (col = v))"

definition sql_and :: "bool option \<Rightarrow> bool option \<Rightarrow> bool option" where
  "sql_and a b =
     (if a = Some False \<or> b = Some False then Some False
      else if a = Some True \<and> b = Some True then Some True
      else None)"

definition sql_where :: "bool option \<Rightarrow> bool" where
  "sql_where c = (c = Some True)"

subsection \<open>Writes\<close>

text \<open>
  The dictionary handed to \<^verbatim>\<open>insert_task\<close>, as both issuers build it: every key present,
  every value of its column's type, \<^verbatim>\<open>statuscode\<close> possibly \<^verbatim>\<open>None\<close>.
\<close>

record task_data =
  td_email :: string
  td_secret :: string
  td_task :: string
  td_round :: int
  td_nonce :: string
  td_brief :: string
  td_checks :: "string list"
  td_evaluation_url :: string
  td_attachments :: "attachment list"
  td_endpoint :: string
  td_statuscode :: "int option"

text \<open>
  \<^verbatim>\<open>INSERT OR REPLACE INTO tasks\<close> under \<^verbatim>\<open>UNIQUE(email, task, round)\<close>: the rows that
  collide with the new one on the unique key are deleted, then the new row is appended
  under a fresh id. \<open>engine_ok\<close> says whether SQLite executes and commits the statement;
  when it raises instead (a locked or full database), the \<^verbatim>\<open>except\<close> branch returns
  \<^verbatim>\<open>False\<close> and nothing is written. \<open>now\<close> is \<^verbatim>\<open>datetime.now().isoformat()\<close>.
\<close>

definition task_conflicts :: "task_data \<Rightarrow> task_row \<Rightarrow> bool" where
  "task_conflicts d t =
     (t_email t = td_email d \<and> t_task t = td_task d \<and> t_round t = td_round d)"

definition new_task_row :: "nat \<Rightarrow> string \<Rightarrow> task_data \<Rightarrow> task_row" where
  "new_task_row i now d =
     \<lparr>t_id = i, t_timestamp = now, t_email = td_email d, t_task = td_task d,
      t_round = td_round d, t_nonce = td_nonce d, t_brief = td_brief d,
      t_attachments = td_attachments d, t_checks = td_checks d,
      t_evaluation_url = td_evaluation_url d, t_endpoint = td_endpoint d,
      t_statuscode = td_statuscode d, t_secret = td_secret d\<rparr>"

definition insert_task :: "bool \<Rightarrow> string \<Rightarrow> database \<Rightarrow> task_data \<Rightarrow> bool \<times> database" where
  "insert_task engine_ok now db d =
     (if engine_ok
      then (True,
            db\<lparr>tasks := filter (\<lambda>t. \<not> task_conflicts d t) (tasks db)
                          @ [new_task_row (Suc (tasks_seq db)) now d],
               tasks_seq := Suc (tasks_seq db)\<rparr>)
      else (False, db))"

text \<open>
  The dictionary handed to \<^verbatim>\<open>insert_repo\<close> by the notification endpoint. Its values come
  straight from the request's JSON, so each may be \<^verbatim>\<open>None\<close> (a JSON \<^verbatim>\<open>null\<close>).
\<close>

record repo_data =
  rd_email :: "string option"
  rd_task :: "string option"
  rd_round :: "int option"
  rd_nonce :: "string option"
  rd_repo_url :: "string option"
  rd_commit_sha :: "string option"
  rd_pages_url :: "string option"

text \<open>
  \<^verbatim>\<open>INSERT OR REPLACE INTO repos\<close> under \<^verbatim>\<open>UNIQUE(email, task, round)\<close>. Every column
  is \<^verbatim>\<open>NOT NULL\<close> without a default: a NULL value aborts the statement with an
  integrity error, which the \<^verbatim>\<open>except\<close> branch turns into \<^verbatim>\<open>False\<close>.
\<close>

definition repo_conflicts :: "string \<Rightarrow> string \<Rightarrow> int \<Rightarrow> repo_row \<Rightarrow> bool" where
  "repo_conflicts email task round_num r =
     (r_email r = email \<and> r_task r = task \<and> r_round r = round_num)"

definition insert_repo :: "bool \<Rightarrow> string \<Rightarrow> database \<Rightarrow> repo_data \<Rightarrow> bool \<times> database" where
  "insert_repo engine_ok now db d =
     (if engine_ok then
        (case (rd_email d, rd_task d, rd_round d, rd_nonce d,
               rd_repo_url d, rd_commit_sha d, rd_pages_url d) of
           (Some email, Some task, Some round_num, Some nonce,
            Some repo_url, Some commit_sha, Some pages_url) \<Rightarrow>
             (True,
              db\<lparr>repos := filter (\<lambda>r. \<not> repo_conflicts email task round_num r) (repos db)
                     @ [\<lparr>r_id = Suc (repos_seq db), r_timestamp = now, r_email = email,
                         r_task = task, r_round = round_num, r_nonce = nonce,
                         r_repo_url = repo_url, r_commit_sha = commit_sha,
                         r_pages_url = pages_url\<rparr>],
                 repos_seq := Suc (repos_seq db)\<rparr>)
         | _ \<Rightarrow> (False, db))
      else (False, db))"



subsection \<open>Queries\<close>

text \<open>
  Python truthiness of an optional filter: \<^verbatim>\<open>if email:\<close> is false for \<^verbatim>\<open>None\<close> and for
  the empty string, \<^verbatim>\<open>if round_num:\<close> is false for \<^verbatim>\<open>None\<close> and for \<^verbatim>\<open>0\<close>.
\<close>

definition truthy_str :: "string option \<Rightarrow> bool" where
  "truthy_str v = (case v of None \<Rightarrow> False | Some s \<Rightarrow> s \<noteq> [])"

definition truthy_int :: "int option \<Rightarrow> bool" where
  "truthy_int v = (case v of None \<Rightarrow> False | Some n \<Rightarrow> n \<noteq> 0)"

text \<open>
  \<^verbatim>\<open>get_tasks\<close>: \<^verbatim>\<open>SELECT * FROM tasks WHERE 1=1\<close>, with \<^verbatim>\<open>AND email = ?\<close> and
  \<^verbatim>\<open>AND round = ?\<close> appended only for a truthy filter. The query does not fix the
  order of its rows (SQLite may follow the unique index); they are listed in table order
  here, and nothing proved below depends on their order.
\<close>

definition get_tasks :: "database \<Rightarrow> string option \<Rightarrow> int option \<Rightarrow> task_row list" where
  "get_tasks db email round_num =
     filter (\<lambda>t. sql_where
        (sql_and (sql_and (Some True)
           (if truthy_str email then sql_eq (t_email t) email else Some True))
           (if truthy_int round_num then sql_eq (t_round t) round_num else Some True)))
       (tasks db)"

text \<open>
  \<^verbatim>\<open>task_exists\<close>: \<^verbatim>\<open>SELECT COUNT(*) FROM tasks WHERE email = ? AND task = ? AND round = ?\<close>,
  then \<^verbatim>\<open>count > 0\<close>. All three parameters are always bound, \<^verbatim>\<open>None\<close> as NULL.
\<close>

definition task_exists :: "database \<Rightarrow> string option \<Rightarrow> string option \<Rightarrow> int option \<Rightarrow> bool" where
  "task_exists db email task round_num =
     (let count = length (filter (\<lambda>t. sql_where
                     (sql_and (sql_and (sql_eq (t_email t) email) (sql_eq (t_task t) task))
                        (sql_eq (t_round t) round_num)))
                   (tasks db))
      in count > 0)"

section \<open>The submission gate: \<^verbatim>\<open>src/evaluation_system/evaluation_api.py\<close>\<close>

text \<open>
  The body of a \<^verbatim>\<open>POST /api/notify\<close> request, as \<^verbatim>\<open>request.get_json()\<close> returns it.
  \<open>NoJson\<close> is JSON for which \<^verbatim>\<open>not data\<close> holds (\<^verbatim>\<open>null\<close>, an empty object). A
  body that is not JSON is answered by Flask inside \<^verbatim>\<open>get_json\<close>, in a way that depends
  on its version, and is outside the model. In a JSON object each required key is absent
  (\<open>Missing\<close>), present with \<^verbatim>\<open>null\<close> (\<open>Null\<close>), or present with a value of the data
  model's type: a string, and an integer for the round. Other JSON types in these
  positions are outside the model.
\<close>

datatype 'a json_field = Missing | Null | Val 'a

record notification =
  n_email :: "string json_field"
  n_task :: "string json_field"
  n_round :: "int json_field"
  n_nonce :: "string json_field"
  n_repo_url :: "string json_field"
  n_commit_sha :: "string json_field"
  n_pages_url :: "string json_field"

datatype request = NoJson | Json notification

text \<open>
  A response is the JSON body and the HTTP status. \<open>ErrorBody m\<close> is
  \<^verbatim>\<open>{'error': m}\<close>, \<open>SuccessBody m\<close> is \<^verbatim>\<open>{'status': 'success', 'message': m}\<close>.
\<close>

datatype body = ErrorBody string | SuccessBody string

type_synonym response = "body \<times> int"

text \<open>\<^verbatim>\<open>field not in data\<close> and \<^verbatim>\<open>data[field]\<close> (\<^verbatim>\<open>None\<close> for a JSON null).\<close>

definition absent :: "'a json_field \<Rightarrow> bool" where
  "absent f = (case f of Missing \<Rightarrow> True | _ \<Rightarrow> False)"

definition item :: "'a json_field \<Rightarrow> 'a option" where
  "item f = (case f of Val v \<Rightarrow> Some v | _ \<Rightarrow> None)"

text \<open>
  The loop over \<^verbatim>\<open>required_fields\<close>: the name of the first required key that the
  object lacks, in the order of the source's list.
\<close>

definition first_missing :: "notification \<Rightarrow> string option" where
  "first_missing n =
     (if absent (n_email n) then Some ''email''
      else if absent (n_task n) then Some ''task''
      else if absent (n_round n) then Some ''round''
      else if absent (n_nonce n) then Some ''nonce''
      else if absent (n_repo_url n) then Some ''repo_url''
      else if absent (n_commit_sha n) then Some ''commit_sha''
      else if absent (n_pages_url n) then Some ''pages_url''
      else None)"

text \<open>
  The scan for a matching task: the first row of \<open>ts\<close> whose \<^verbatim>\<open>task\<close> and \<^verbatim>\<open>nonce\<close>
  columns both equal the request's values (a string never equals \<^verbatim>\<open>None\<close>).
\<close>

definition matches :: "notification \<Rightarrow> task_row \<Rightarrow> bool" where
  "matches n t = (Some (t_task t) = item (n_task n) \<and> Some (t_nonce t) = item (n_nonce n))"

definition matching_task :: "notification \<Rightarrow> task_row list \<Rightarrow> task_row option" where
  "matching_task n ts = find (matches n) ts"

text \<open>
  \<^verbatim>\<open>receive_notification\<close>. \<open>read_fault\<close> is \<open>Some msg\<close> when \<^verbatim>\<open>db.get_tasks\<close> raises
  (it has no handler of its own, so the endpoint's \<^verbatim>\<open>except\<close> answers 500 with the
  exception's text); \<open>engine_ok\<close> and \<open>now\<close> are those of \<open>insert_repo\<close>.
\<close>

definition receive_notification ::
    "string option \<Rightarrow> bool \<Rightarrow> string \<Rightarrow> database \<Rightarrow> request \<Rightarrow> response \<times> database" where
  "receive_notification read_fault engine_ok now db req =
     (case req of
        NoJson \<Rightarrow> ((ErrorBody ''No JSON data provided'', 400), db)
      | Json n \<Rightarrow>
          (case first_missing n of
             Some field \<Rightarrow> ((ErrorBody (''Missing required field: '' @ field), 400), db)
           | None \<Rightarrow>
               (case read_fault of
                  Some msg \<Rightarrow> ((ErrorBody (''Internal server error: '' @ msg), 500), db)
                | None \<Rightarrow>
                    (case matching_task n (get_tasks db (item (n_email n)) (item (n_round n))) of
                       None \<Rightarrow>
                         ((ErrorBody
                            ''No matching task found for the provided email, task, round, and nonce'',
                           400), db)
                     | Some t \<Rightarrow>
                         (let rd = \<lparr>rd_email = item (n_email n), rd_task = item (n_task n),
                                    rd_round = item (n_round n), rd_nonce = item (n_nonce n),
                                    rd_repo_url = item (n_repo_url n),
                                    rd_commit_sha = item (n_commit_sha n),
                                    rd_pages_url = item (n_pages_url n)\<rparr>;
                              (success, db') = insert_repo engine_ok now db rd
                          in if success
                             then ((SuccessBody ''Repo submission received'', 200), db')
                             else ((ErrorBody ''Failed to store repo submission'', 500), db'))))))"

section \<open>Python strings\<close>

text \<open>
  A \<open>string\<close> is a list of characters, each one code point below 256: identifiers,
  URLs, the fields of the submissions file and file contents are strings, and text with
  a code point from 256 on is outside what a \<open>string\<close> can hold. \<^verbatim>\<open>str.strip()\<close> drops
  the white space of both ends, that is the characters for which \<^verbatim>\<open>str.isspace\<close> holds:
  below 256 these are U+0009 to U+000D, U+001C to U+0020, U+0085 and U+00A0.
  \<^verbatim>\<open>str.lower()\<close> maps the ASCII capitals to small letters and is used only to search
  for ASCII words, \<^verbatim>\<open>a in s\<close> is substring search, \<^verbatim>\<open>s.split(c)[0]\<close> is the part of \<open>s\<close>
  before the first \<open>c\<close>, \<^verbatim>\<open>sep.join(xs)\<close> concatenates with a separator.
\<close>

definition py_space :: "char \<Rightarrow> bool" where
  "py_space c =
     (c \<in> set [CHR 0x09, CHR 0x0A, CHR 0x0B, CHR 0x0C, CHR 0x0D,
                CHR 0x1C, CHR 0x1D, CHR 0x1E, CHR 0x1F, CHR 0x20, CHR 0x85, CHR 0xA0])"

definition strip :: "string \<Rightarrow> string" where
  "strip s = rev (dropWhile py_space (rev (dropWhile py_space s)))"





definition split_first :: "char \<Rightarrow> string \<Rightarrow> string" where
  "split_first c s = takeWhile (\<lambda>x. x \<noteq> c) s"









section \<open>The round-1 issuer: \<^verbatim>\<open>src/evaluation_system/round1.py\<close>\<close>

text \<open>
  \<^verbatim>\<open>TaskTemplates.get_templates\<close>, the round-1 part (the issuer reads nothing else of
  it). \<open>tp_attachments\<close> is \<open>None\<close> where the template has no \<^verbatim>\<open>attachments\<close> key.
\<close>

record template =
  tp_brief :: string
  tp_checks :: "string list"
  tp_attachments :: "attachment list option"

definition template_ids :: "string list" where
  "template_ids = [''captcha-solver'', ''weather-dashboard'', ''todo-manager'']"

definition round1_template :: "string \<Rightarrow> template option" where
  "round1_template template_id =
     (if template_id = ''captcha-solver'' then Some
        \<lparr>tp_brief = ''Create a captcha solver that handles ?url=https://.../image.png. Default to attached sample. Display the solved captcha text within 15 seconds.'',
         tp_checks =
           [''Repo has MIT license'',
            ''README.md is professional'',
            ''Page displays captcha URL passed at ?url=...'',
            ''Page displays solved captcha text within 15 seconds'',
            ''Code is well-commented and organized''],
         tp_attachments = Some
           [(''sample.png'',
             ''data:image/png;base64,iVBORw0KGgoAAAANSUhEUgAAAAEAAAABCAYAAAAfFcSJAAAADUlEQVR42mNkYPhfDwAChwGA60e6kgAAAABJRU5ErkJggg=='')]\<rparr>
      else if template_id = ''weather-dashboard'' then Some
        \<lparr>tp_brief = ''Create a weather dashboard that displays current weather for a city passed as ?city=CityName. Use OpenWeatherMap API or similar.'',
         tp_checks =
           [''Repo has MIT license'',
            ''README.md is professional'',
            ''Page accepts city parameter from URL'',
            ''Displays current weather information'',
            ''Responsive design for mobile devices''],
         tp_attachments = None\<rparr>
      else if template_id = ''todo-manager'' then Some
        \<lparr>tp_brief = ''Create a todo manager that supports adding, editing, deleting, and marking tasks as complete. Use localStorage for persistence.'',
         tp_checks =
           [''Repo has MIT license'',
            ''README.md is professional'',
            ''Add, edit, delete functionality works'',
            ''Mark tasks as complete/incomplete'',
            ''Data persists using localStorage''],
         tp_attachments = None\<rparr>
      else None)"

text \<open>
  What the issuer takes from outside, per row \<open>i\<close> of the submissions file (counted from
  0): the clock's hour bucket, the 5-digit prefix of the MD5 digest of a brief and its
  attachments, the index \<^verbatim>\<open>random.choice\<close> draws after seeding with the digest of
  \<^verbatim>\<open>email + date_hour\<close> (a function of that string), the \<^verbatim>\<open>uuid4\<close> drawn, the outcome
  of the HTTP POST (\<open>None\<close> when \<^verbatim>\<open>requests.post\<close> raises), and the store's two inputs.
\<close>

record issuer_env =
  ie_evaluation_url :: string
  ie_hour :: "nat \<Rightarrow> string"
  ie_choice :: "string \<Rightarrow> nat"
  ie_md5 :: "string \<Rightarrow> attachment list \<Rightarrow> string"
  ie_uuid4 :: "nat \<Rightarrow> string"
  ie_post :: "nat \<Rightarrow> string \<Rightarrow> int option"
  ie_engine_ok :: "nat \<Rightarrow> bool"
  ie_now :: "nat \<Rightarrow> string"

record task_payload =
  p_email :: string
  p_secret :: string
  p_task :: string
  p_round :: int
  p_nonce :: string
  p_brief :: string
  p_checks :: "string list"
  p_evaluation_url :: string
  p_attachments :: "attachment list"

text \<open>
  The effects of a sweep, in order: a student skipped, a task generated (its
  \<open>p_nonce\<close> is the nonce minted for it), a payload posted to an endpoint with the
  status \<^verbatim>\<open>send_task\<close> returned, a record handed to \<^verbatim>\<open>insert_task\<close> with what that
  returned, and a pause of so many seconds.
\<close>

datatype issuer_event =
    Skipped string
  | Generated task_payload
  | Posted string task_payload "int option"
  | Stored task_data bool
  | Slept nat

record world =
  w_db :: database
  w_trace :: "issuer_event list"

definition logged :: "issuer_event list \<Rightarrow> world \<Rightarrow> world" where
  "logged evs w = w\<lparr>w_trace := w_trace w @ evs\<rparr>"

definition generate_task_id :: "issuer_env \<Rightarrow> string \<Rightarrow> string \<Rightarrow> attachment list option \<Rightarrow> string" where
  "generate_task_id env template_id brief attachments =
     template_id @ ''-''
       @ ie_md5 env brief (case attachments of None \<Rightarrow> [] | Some a \<Rightarrow> a)"

definition select_template :: "issuer_env \<Rightarrow> string \<Rightarrow> string \<Rightarrow> string" where
  "select_template env email date_hour =
     template_ids ! (ie_choice env (email @ date_hour) mod length template_ids)"

definition generate_task :: "issuer_env \<Rightarrow> nat \<Rightarrow> string \<Rightarrow> string \<Rightarrow> string \<Rightarrow> task_payload option" where
  "generate_task env i email endpoint secret =
     (let current_hour = ie_hour env i;
          template_id = select_template env email current_hour
      in case round1_template template_id of
           None \<Rightarrow> None
         | Some tp \<Rightarrow>
             Some \<lparr>p_email = email, p_secret = secret,
                   p_task = generate_task_id env template_id (tp_brief tp) (tp_attachments tp),
                   p_round = 1, p_nonce = ie_uuid4 env i, p_brief = tp_brief tp,
                   p_checks = tp_checks tp, p_evaluation_url = ie_evaluation_url env,
                   p_attachments = (case tp_attachments tp of None \<Rightarrow> [] | Some a \<Rightarrow> a)\<rparr>)"

definition send_task :: "issuer_env \<Rightarrow> nat \<Rightarrow> string \<Rightarrow> task_payload \<Rightarrow> int option" where
  "send_task env i endpoint task_data = ie_post env i endpoint"

text \<open>\<^verbatim>\<open>task_data.copy()\<close> with \<^verbatim>\<open>endpoint\<close> and \<^verbatim>\<open>statuscode\<close> added.\<close>

definition task_record :: "task_payload \<Rightarrow> string \<Rightarrow> int option \<Rightarrow> task_data" where
  "task_record p endpoint status_code =
     \<lparr>td_email = p_email p, td_secret = p_secret p, td_task = p_task p,
      td_round = p_round p, td_nonce = p_nonce p, td_brief = p_brief p,
      td_checks = p_checks p, td_evaluation_url = p_evaluation_url p,
      td_attachments = p_attachments p, td_endpoint = endpoint,
      td_statuscode = status_code\<rparr>"

text \<open>
  A row of the submissions file as \<^verbatim>\<open>csv.DictReader\<close> yields it. A column is \<open>None\<close>
  when the header lacks it (\<^verbatim>\<open>row['email']\<close> raises) or the line is too short
  (\<^verbatim>\<open>None.strip()\<close> raises); either way the exception leaves the loop.
\<close>

record csv_row =
  c_email :: "string option"
  c_endpoint :: "string option"
  c_secret :: "string option"

text \<open>
  The body of the loop of \<^verbatim>\<open>process_submissions\<close> for row \<open>i\<close>: \<open>None\<close> when it raises,
  else the world after the row. The dedup gate is the call
  \<^verbatim>\<open>self.db.task_exists(email, None, 1)\<close>.
\<close>

definition process_row :: "issuer_env \<Rightarrow> nat \<Rightarrow> world \<Rightarrow> csv_row \<Rightarrow> world option" where
  "process_row env i w row =
     (case (c_email row, c_endpoint row, c_secret row) of
        (Some e, Some ep, Some s) \<Rightarrow>
          (let email = strip e; endpoint = strip ep; secret = strip s in
           if task_exists (w_db w) (Some email) None (Some 1)
           then Some (logged [Skipped email] w)
           else
             (case generate_task env i email endpoint secret of
                None \<Rightarrow> Some w
              | Some task_data \<Rightarrow>
                  (let status_code = send_task env i endpoint task_data;
                       rec = task_record task_data endpoint status_code;
                       (success, db') = insert_task (ie_engine_ok env i) (ie_now env i) (w_db w) rec
                   in Some (logged [Generated task_data,
                                    Posted endpoint task_data status_code,
                                    Stored rec success,
                                    Slept 1]
                              (w\<lparr>w_db := db'\<rparr>)))))
      | _ \<Rightarrow> None)"

fun process_rows :: "issuer_env \<Rightarrow> nat \<Rightarrow> world \<Rightarrow> csv_row list \<Rightarrow> world" where
  "process_rows env i w [] = w"
| "process_rows env i w (row # rows) =
     (case process_row env i w row of
        None \<Rightarrow> w
      | Some w' \<Rightarrow> process_rows env (Suc i) w' rows)"

text \<open>
  \<^verbatim>\<open>process_submissions\<close>: \<open>None\<close> for the file is \<^verbatim>\<open>FileNotFoundError\<close>, after which
  nothing has happened.
\<close>

definition process_submissions :: "issuer_env \<Rightarrow> world \<Rightarrow> csv_row list option \<Rightarrow> world" where
  "process_submissions env w submissions_file =
     (case submissions_file of
        None \<Rightarrow> w
      | Some rows \<Rightarrow> process_rows env 0 w rows)"

section \<open>The round-2 issuer and its retry sweep: \<^verbatim>\<open>src/evaluation_system/round2.py\<close>\<close>

text \<open>
  \<^verbatim>\<open>get_repos\<close> filters like \<^verbatim>\<open>get_tasks\<close>.
\<close>

definition get_repos :: "database \<Rightarrow> string option \<Rightarrow> int option \<Rightarrow> repo_row list" where
  "get_repos db email round_num =
     filter (\<lambda>r. sql_where
        (sql_and (sql_and (Some True)
           (if truthy_str email then sql_eq (r_email r) email else Some True))
           (if truthy_int round_num then sql_eq (r_round r) round_num else Some True)))
       (repos db)"

text \<open>\<^verbatim>\<open>self.round2_templates\<close>: the candidate briefs per task type.\<close>

record template2 =
  tp2_brief :: string
  tp2_checks :: "string list"

definition round2_templates :: "string \<Rightarrow> template2 list option" where
  "round2_templates task_type =
     (if task_type = ''captcha-solver'' then Some
        [\<lparr>tp2_brief = ''Enhance the captcha solver to handle SVG images and implement audio captcha support with text-to-speech output.'',
          tp2_checks =
            [''SVG captcha support implemented'',
             ''Audio captcha functionality added'',
             ''Text-to-speech output for solved captchas'',
             ''Error handling for unsupported formats'',
             ''Updated README with new features'',
             ''Backward compatibility maintained'']\<rparr>,
         \<lparr>tp2_brief = ''Add batch processing capability to solve multiple captchas from a comma-separated URL list and display results in a table.'',
          tp2_checks =
            [''Batch processing of multiple URLs'',
             ''Results displayed in organized table'',
             ''Progress indicators during processing'',
             ''Export functionality for results'',
             ''Error handling for invalid URLs'',
             ''Performance optimizations'']\<rparr>]
      else if task_type = ''weather-dashboard'' then Some
        [\<lparr>tp2_brief = ''Add 7-day weather forecast, implement location-based weather detection using geolocation API, and add weather maps.'',
          tp2_checks =
            [''7-day forecast implemented'',
             ''Geolocation API integration'',
             ''Weather maps or charts added'',
             ''Temperature unit conversion (C/F)'',
             ''Error handling for API failures'',
             ''Responsive design improvements'']\<rparr>,
         \<lparr>tp2_brief = ''Implement weather alerts, historical data comparison, and add multiple city comparison dashboard.'',
          tp2_checks =
            [''Weather alerts and notifications'',
             ''Historical weather data display'',
             ''Multi-city comparison view'',
             ''Favorite cities functionality'',
             ''Data caching for performance'',
             ''Enhanced mobile experience'']\<rparr>]
      else if task_type = ''todo-manager'' then Some
        [\<lparr>tp2_brief = ''Add categories, due dates, priority levels, and implement search/filter functionality with data export capabilities.'',
          tp2_checks =
            [''Categories system implemented'',
             ''Due dates and priority levels'',
             ''Search and filter functionality'',
             ''Export/import capabilities (JSON/CSV)'',
             ''Task sorting options'',
             ''Enhanced UI/UX design'']\<rparr>,
         \<lparr>tp2_brief = ''Implement collaborative features with task sharing, comments, and real-time updates using localStorage or API.'',
          tp2_checks =
            [''Task sharing functionality'',
             ''Comments and notes system'',
             ''Real-time updates simulation'',
             ''User roles and permissions'',
             ''Activity history tracking'',
             ''Notification system'']\<rparr>]
      else None)"

text \<open>
  \<^verbatim>\<open>extract_task_type\<close>: \<^verbatim>\<open>task_id.split('-')[0] if '-' in task_id else task_id\<close>; both
  arms are the part before the first hyphen.
\<close>

definition extract_task_type :: "string \<Rightarrow> string" where
  "extract_task_type task_id =
     (if CHR ''-'' \<in> set task_id then split_first CHR ''-'' task_id else task_id)"

text \<open>
  What the round-2 issuer takes from outside, per item \<open>i\<close> of its loop: the index
  \<^verbatim>\<open>random.choice\<close> draws, the \<^verbatim>\<open>uuid4\<close>, the outcome of the POST, and the store's inputs.
\<close>

record round2_env =
  r2_evaluation_url :: string
  r2_choice :: "nat \<Rightarrow> nat"
  r2_uuid4 :: "nat \<Rightarrow> string"
  r2_post :: "nat \<Rightarrow> string \<Rightarrow> int option"
  r2_engine_ok :: "nat \<Rightarrow> bool"
  r2_now :: "nat \<Rightarrow> string"

definition generate_round2_task :: "round2_env \<Rightarrow> nat \<Rightarrow> repo_row \<Rightarrow> task_row \<Rightarrow> task_payload option" where
  "generate_round2_task env i repo_data original_task_data =
     (let task_type = extract_task_type (t_task original_task_data)
      in case round2_templates task_type of
           None \<Rightarrow> None
         | Some templates \<Rightarrow>
             (let selected_template = templates ! (r2_choice env i mod length templates)
              in Some \<lparr>p_email = r_email repo_data, p_secret = t_secret original_task_data,
                       p_task = t_task original_task_data, p_round = 2,
                       p_nonce = r2_uuid4 env i, p_brief = tp2_brief selected_template,
                       p_checks = tp2_checks selected_template,
                       p_evaluation_url = r2_evaluation_url env, p_attachments = []\<rparr>))"

text \<open>The body of the loop of \<^verbatim>\<open>process_round1_completions\<close> for item \<open>i\<close>.\<close>

definition process_completion :: "round2_env \<Rightarrow> nat \<Rightarrow> world \<Rightarrow> repo_row \<Rightarrow> world" where
  "process_completion env i w repo =
     (let email = r_email repo; task = r_task repo in
      if task_exists (w_db w) (Some email) (Some task) (Some 2)
      then logged [Skipped email] w
      else
        (case find (\<lambda>task_record. t_task task_record = task)
                (get_tasks (w_db w) (Some email) (Some 1)) of
           None \<Rightarrow> w
         | Some original_task \<Rightarrow>
             (case generate_round2_task env i repo original_task of
                None \<Rightarrow> w
              | Some round2_task \<Rightarrow>
                  (let endpoint = t_endpoint original_task;
                       status_code = r2_post env i endpoint;
                       rec = task_record round2_task endpoint status_code;
                       (success, db') = insert_task (r2_engine_ok env i) (r2_now env i) (w_db w) rec
                   in logged [Generated round2_task,
                              Posted endpoint round2_task status_code,
                              Stored rec success,
                              Slept 1]
                        (w\<lparr>w_db := db'\<rparr>)))))"

fun process_completions :: "round2_env \<Rightarrow> nat \<Rightarrow> world \<Rightarrow> repo_row list \<Rightarrow> world" where
  "process_completions env i w [] = w"
| "process_completions env i w (repo # rest) =
     process_completions env (Suc i) (process_completion env i w repo) rest"

text \<open>
  \<^verbatim>\<open>process_round1_completions\<close>: the list of round-1 repos is read once, before the loop.
\<close>

definition process_round1_completions :: "round2_env \<Rightarrow> world \<Rightarrow> world" where
  "process_round1_completions env w =
     process_completions env 0 w (get_repos (w_db w) None (Some 1))"

text \<open>
  \<^verbatim>\<open>retry_failed_round2_tasks\<close>. The payload is rebuilt from the stored row; the status
  of the new attempt is compared with 200 and then dropped (the source notes that
  storing it would need an update method the store does not have).
\<close>

definition retry_payload :: "task_row \<Rightarrow> task_payload" where
  "retry_payload task =
     \<lparr>p_email = t_email task, p_secret = t_secret task, p_task = t_task task,
      p_round = t_round task, p_nonce = t_nonce task, p_brief = t_brief task,
      p_checks = t_checks task, p_evaluation_url = t_evaluation_url task,
      p_attachments = t_attachments task\<rparr>"

definition failed_tasks :: "database \<Rightarrow> task_row list" where
  "failed_tasks db = filter (\<lambda>task. t_statuscode task \<noteq> Some 200) (get_tasks db None (Some 2))"

fun retry_tasks :: "round2_env \<Rightarrow> nat \<Rightarrow> world \<Rightarrow> task_row list \<Rightarrow> world" where
  "retry_tasks env i w [] = w"
| "retry_tasks env i w (task # rest) =
     (let task_data = retry_payload task;
          status_code = r2_post env i (t_endpoint task)
      in retry_tasks env (Suc i)
           (logged [Posted (t_endpoint task) task_data status_code, Slept 2] w) rest)"

definition retry_failed_round2_tasks :: "round2_env \<Rightarrow> world \<Rightarrow> world" where
  "retry_failed_round2_tasks env w = retry_tasks env 0 w (failed_tasks (w_db w))"

section \<open>The retrying notifier: \<^verbatim>\<open>src/student_api/app.py\<close>\<close>

text \<open>
  The dictionary handed to \<^verbatim>\<open>notify_evaluation_api\<close>, as \<^verbatim>\<open>build_application\<close> builds it.
  \<open>nd_evaluation_url\<close> is \<^verbatim>\<open>data.get('evaluation_url')\<close>: \<open>None\<close> when the key is absent
  or null.
\<close>

record notify_data =
  nd_evaluation_url :: "string option"
  nd_email :: string
  nd_task :: string
  nd_round :: int
  nd_nonce :: string
  nd_repo_url :: string
  nd_commit_sha :: string
  nd_pages_url :: string

record notify_payload =
  np_email :: string
  np_task :: string
  np_round :: int
  np_nonce :: string
  np_repo_url :: string
  np_commit_sha :: string
  np_pages_url :: string

text \<open>
  What the notifier does, in order: a POST of the payload to a URL (one delivery
  attempt, with its outcome: the status, or \<open>None\<close> when \<^verbatim>\<open>requests.post\<close> raises), and
  a \<^verbatim>\<open>time.sleep\<close> of so many seconds.
\<close>

datatype notify_event = Attempt string notify_payload "int option" | Sleep nat

text \<open>
  The loop \<^verbatim>\<open>for attempt in range(max_retries)\<close>, from \<open>attempt\<close> on. \<open>post k\<close> is the
  outcome of the POST made in iteration \<open>k\<close>. The source's test
  \<^verbatim>\<open>attempt < max_retries - 1\<close> is written without subtraction.
\<close>

function notify_loop ::
    "(nat \<Rightarrow> int option) \<Rightarrow> string \<Rightarrow> notify_payload \<Rightarrow> nat \<Rightarrow> nat \<Rightarrow> bool \<times> notify_event list" where
  "notify_loop post evaluation_url payload max_retries attempt =
     (if attempt < max_retries then
        (if post attempt = Some 200
         then (True, [Attempt evaluation_url payload (post attempt)])
         else
           (let delay = (if attempt + 1 < max_retries then [Sleep (2 ^ attempt)] else []);
                (r, evs) = notify_loop post evaluation_url payload max_retries (Suc attempt)
            in (r, Attempt evaluation_url payload (post attempt) # delay @ evs)))
      else (False, []))"
  by pat_completeness auto
termination
  by (relation "measure (\<lambda>(post, evaluation_url, payload, max_retries, attempt). max_retries - attempt)") auto

definition notify_evaluation_api ::
    "(nat \<Rightarrow> int option) \<Rightarrow> notify_data \<Rightarrow> nat \<Rightarrow> bool \<times> notify_event list" where
  "notify_evaluation_api post data max_retries =
     (case nd_evaluation_url data of
        None \<Rightarrow> (False, [])
      | Some evaluation_url \<Rightarrow>
          (if evaluation_url = [] then (False, [])
           else
             (let payload = \<lparr>np_email = nd_email data, np_task = nd_task data,
                             np_round = nd_round data, np_nonce = nd_nonce data,
                             np_repo_url = nd_repo_url data,
                             np_commit_sha = nd_commit_sha data,
                             np_pages_url = nd_pages_url data\<rparr>
              in notify_loop post evaluation_url payload max_retries 0)))"

text \<open>
  Readings of the notifier's trace: how many delivery attempts it holds, and the delays
  slept, in order. \<open>backoff_trace post url payload n\<close> is the protocol as the
  specification words it, for \<open>n\<close> attempts: attempt \<open>k\<close> (counted from 0), and after
  every attempt but the last a wait of \<open>2 ^ k\<close> seconds.
\<close>

definition attempt_count :: "notify_event list \<Rightarrow> nat" where
  "attempt_count evs = length (filter (\<lambda>e. case e of Attempt u p r \<Rightarrow> True | Sleep d \<Rightarrow> False) evs)"

definition delays :: "notify_event list \<Rightarrow> nat list" where
  "delays evs = concat (map (\<lambda>e. case e of Attempt u p r \<Rightarrow> [] | Sleep d \<Rightarrow> [d]) evs)"

definition backoff_from ::
    "(nat \<Rightarrow> int option) \<Rightarrow> string \<Rightarrow> notify_payload \<Rightarrow> nat \<Rightarrow> nat \<Rightarrow> notify_event list" where
  "backoff_from post url payload a n =
     concat (map (\<lambda>k. Attempt url payload (post k) # (if k + 1 < a + n then [Sleep (2 ^ k)] else []))
               [a ..< a + n])"

definition backoff_trace ::
    "(nat \<Rightarrow> int option) \<Rightarrow> string \<Rightarrow> notify_payload \<Rightarrow> nat \<Rightarrow> notify_event list" where
  "backoff_trace post url payload n = backoff_from post url payload 0 n"

definition payload_of :: "notify_data \<Rightarrow> notify_payload" where
  "payload_of data =
     \<lparr>np_email = nd_email data, np_task = nd_task data, np_round = nd_round data,
      np_nonce = nd_nonce data, np_repo_url = nd_repo_url data,
      np_commit_sha = nd_commit_sha data, np_pages_url = nd_pages_url data\<rparr>"

section \<open>The evaluation pipeline: \<^verbatim>\<open>src/evaluation_system/evaluate.py\<close>\<close>

text \<open>
  Scores are Python floats. A decimal here stands for the float that Python prints as
  that decimal. The running sums of the dynamic check (0.3, 0.4, 0.6, 0.7, 1.0) are the
  floats the source computes; the running sum of the README rubric is given by a table,
  since three times 0.2 makes 0.6000000000000001. A score that is not a number is outside
  the model.

  A path of the cloned working tree either does not exist, exists but cannot be read as
  UTF-8 text (\<^verbatim>\<open>read_text\<close> raises; a directory is such a path), or holds text. File
  names are compared exactly, as on a case-sensitive file system.
\<close>

datatype fs_entry = NoFile | Unreadable string | Content string

record repo_tree =
  rt_file :: "string \<Rightarrow> fs_entry"
  rt_glob :: "string \<Rightarrow> (string \<times> string option) list"





fun split_on :: "char \<Rightarrow> string \<Rightarrow> string list" where
  "split_on c [] = [[]]"
| "split_on c (x # xs) =
     (case split_on c xs of
        [] \<Rightarrow> (if x = c then [[], []] else [[x]])
      | l # ls \<Rightarrow> (if x = c then [] # l # ls else (x # l) # ls))"






























section \<open>Readings of traces and runs\<close>

text \<open>
  Readings of a trace: the nonces minted (one per task generated), the deliveries
  attempted (endpoint and payload), the records handed to the store, the students
  skipped.
\<close>

definition minted :: "issuer_event list \<Rightarrow> string list" where
  "minted tr = concat (map (\<lambda>e. case e of Generated p \<Rightarrow> [p_nonce p] | _ \<Rightarrow> []) tr)"

definition posted :: "issuer_event list \<Rightarrow> (string \<times> task_payload) list" where
  "posted tr = concat (map (\<lambda>e. case e of Posted endpoint p status \<Rightarrow> [(endpoint, p)] | _ \<Rightarrow> []) tr)"

definition stored :: "issuer_event list \<Rightarrow> task_data list" where
  "stored tr = concat (map (\<lambda>e. case e of Stored d ok \<Rightarrow> [d] | _ \<Rightarrow> []) tr)"

definition skipped :: "issuer_event list \<Rightarrow> string list" where
  "skipped tr = concat (map (\<lambda>e. case e of Skipped email \<Rightarrow> [email] | _ \<Rightarrow> []) tr)"












section \<open>Histories of the store\<close>

text \<open>
  The operations that touch the tasks table or feed the issuers, as steps on the world:
  a bare \<^verbatim>\<open>insert_task\<close>, a round-1 sweep, a round-2 sweep, a retry sweep, and a
  notification received by the gate. A history is a list of them, run from the left.
\<close>

datatype store_op =
    UpsertTask bool string task_data
  | Round1Sweep issuer_env "csv_row list option"
  | Round2Sweep round2_env
  | RetrySweep round2_env
  | Notify "string option" bool string request

fun apply_op :: "store_op \<Rightarrow> world \<Rightarrow> world" where
  "apply_op (UpsertTask engine_ok now d) w = w\<lparr>w_db := snd (insert_task engine_ok now (w_db w) d)\<rparr>"
| "apply_op (Round1Sweep env submissions_file) w = process_submissions env w submissions_file"
| "apply_op (Round2Sweep env) w = process_round1_completions env w"
| "apply_op (RetrySweep env) w = retry_failed_round2_tasks env w"
| "apply_op (Notify read_fault engine_ok now req) w =
     w\<lparr>w_db := snd (receive_notification read_fault engine_ok now (w_db w) req)\<rparr>"

fun run_ops :: "store_op list \<Rightarrow> world \<Rightarrow> world" where
  "run_ops [] w = w"
| "run_ops (op # ops) w = run_ops ops (apply_op op w)"

definition fresh_world :: world where
  "fresh_world = \<lparr>w_db = init_database, w_trace = []\<rparr>"

definition task_key :: "task_row \<Rightarrow> string \<times> string \<times> int" where
  "task_key t = (t_email t, t_task t, t_round t)"

definition tasks_with_key :: "database \<Rightarrow> string \<times> string \<times> int \<Rightarrow> task_row list" where
  "tasks_with_key db k = filter (\<lambda>t. task_key t = k) (tasks db)"

section \<open>Sample data\<close>

text \<open>
  A student, the todo-manager task as a round-1 sweep issues it to them (\<^verbatim>\<open>47802\<close> are
  the first five digits of the MD5 digest of the template's brief followed by \<^verbatim>\<open>[]\<close>),
  and the store holding just that task.
\<close>

definition sample_task :: task_data where
  "sample_task =
     \<lparr>td_email = ''a@x.edu'', td_secret = ''s3'', td_task = ''todo-manager-47802'',
      td_round = 1, td_nonce = ''N1'',
      td_brief = ''Create a todo manager that supports adding, editing, deleting, and marking tasks as complete. Use localStorage for persistence.'',
      td_checks =
        [''Repo has MIT license'',
         ''README.md is professional'',
         ''Add, edit, delete functionality works'',
         ''Mark tasks as complete/incomplete'',
         ''Data persists using localStorage''],
      td_evaluation_url = ''http://eval/api/notify'',
      td_attachments = [], td_endpoint = ''http://student/api/build'',
      td_statuscode = Some 200\<rparr>"

definition sample_db :: database where
  "sample_db = snd (insert_task True ''2025-01-01T10:00:00'' init_database sample_task)"

text \<open>The same task for another student.\<close>

definition other_task :: task_data where
  "other_task = sample_task\<lparr>td_email := ''b@x.edu''\<rparr>"

text \<open>
  A second round-1 sweep over the same student, in surroundings where every call
  succeeds: the same template is drawn (so the same task id), and \<^verbatim>\<open>uuid4\<close> yields
  \<^verbatim>\<open>N2\<close>. \<open>sample_md5\<close> gives the digests of the three templates as MD5 computes
  them from the brief and the JSON text of the attachments.
\<close>

definition sample_md5 :: "string \<Rightarrow> attachment list \<Rightarrow> string" where
  "sample_md5 brief attachments =
     (if Some brief = map_option tp_brief (round1_template ''captcha-solver'') then ''f239c''
      else if Some brief = map_option tp_brief (round1_template ''weather-dashboard'')
      then ''ff4ff''
      else if Some brief = map_option tp_brief (round1_template ''todo-manager'') then ''47802''
      else ''00000'')"

definition sample_issuer_env :: issuer_env where
  "sample_issuer_env =
     \<lparr>ie_evaluation_url = ''http://eval/api/notify'',
      ie_hour = (\<lambda>i. ''2025-01-01-11''),
      ie_choice = (\<lambda>seed. 2),
      ie_md5 = sample_md5,
      ie_uuid4 = (\<lambda>i. ''N2''),
      ie_post = (\<lambda>i endpoint. Some 200),
      ie_engine_ok = (\<lambda>i. True),
      ie_now = (\<lambda>i. ''2025-01-01T11:00:00'')\<rparr>"

definition sample_csv :: "csv_row list" where
  "sample_csv =
     [\<lparr>c_email = Some ''a@x.edu'', c_endpoint = Some ''http://student/api/build'',
       c_secret = Some ''s3''\<rparr>]"

definition swept_twice :: "store_op list" where
  "swept_twice =
     [Round1Sweep sample_issuer_env (Some sample_csv),
      Round1Sweep sample_issuer_env (Some sample_csv)]"

definition sample_rerun :: world where
  "sample_rerun =
     process_submissions sample_issuer_env \<lparr>w_db = sample_db, w_trace = []\<rparr> (Some sample_csv)"

text \<open>
  A notification that names the sample task and its nonce but carries the empty string
  as its email.
\<close>

definition anonymous_notification :: notification where
  "anonymous_notification =
     \<lparr>n_email = Val [], n_task = Val ''todo-manager-47802'', n_round = Val 1,
      n_nonce = Val ''N1'', n_repo_url = Val ''https://github.com/u/todo'',
      n_commit_sha = Val ''abc123'', n_pages_url = Val ''https://u.github.io/todo/''\<rparr>"

text \<open>
  A build notice for the sample task, and an evaluator that answers 503 twice and then
  200; the same notice with an empty evaluation URL, and an evaluator that always
  answers 200.
\<close>

definition sample_notice :: notify_data where
  "sample_notice =
     \<lparr>nd_evaluation_url = Some ''http://eval/api/notify'', nd_email = ''a@x.edu'',
      nd_task = ''todo-manager-47802'', nd_round = 1, nd_nonce = ''N1'',
      nd_repo_url = ''https://github.com/u/todo'', nd_commit_sha = ''abc123'',
      nd_pages_url = ''https://u.github.io/todo/''\<rparr>"

definition third_time_ok :: "nat \<Rightarrow> int option" where
  "third_time_ok k = (if k = 2 then Some 200 else Some 503)"

definition always_ok :: "nat \<Rightarrow> int option" where
  "always_ok k = Some 200"

definition urlless_notice :: notify_data where
  "urlless_notice = sample_notice\<lparr>nd_evaluation_url := Some []\<rparr>"

text \<open>
  A store with one round-2 task whose delivery failed (status 503) and one that was
  delivered, and surroundings for a retry sweep in which the POST now succeeds.
\<close>

definition failed_round2_task :: task_data where
  "failed_round2_task =
     sample_task\<lparr>td_round := 2, td_nonce := ''N7'', td_statuscode := Some 503\<rparr>"

definition delivered_round2_task :: task_data where
  "delivered_round2_task =
     sample_task\<lparr>td_email := ''b@x.edu'', td_round := 2, td_nonce := ''N8'',
       td_statuscode := Some 200\<rparr>"

definition round2_db :: database where
  "round2_db =
     snd (insert_task True ''2025-01-03T10:00:01'' 
       (snd (insert_task True ''2025-01-03T10:00:00'' init_database failed_round2_task))
       delivered_round2_task)"

definition sample_round2_env :: round2_env where
  "sample_round2_env =
     \<lparr>r2_evaluation_url = ''http://eval/api/notify'',
      r2_choice = (\<lambda>i. 0),
      r2_uuid4 = (\<lambda>i. ''N9''),
      r2_post = (\<lambda>i endpoint. Some 200),
      r2_engine_ok = (\<lambda>i. True),
      r2_now = (\<lambda>i. ''2025-01-03T12:00:00'')\<rparr>"


definition txt_only_tree :: repo_tree where
  "txt_only_tree =
     \<lparr>rt_file = (\<lambda>name. if name = ''LICENSE.txt'' then Content ''MIT License'' else NoFile),
      rt_glob = (\<lambda>ext. [])\<rparr>"
















section \<open>Properties\<close>

subsection \<open>One task row per key\<close>

lemma task_key_new_row: "task_key (new_task_row i now d) = (td_email d, td_task d, td_round d)"
  by (simp add: task_key_def new_task_row_def)

lemma conflicts_iff_key: "task_conflicts d t \<longleftrightarrow> task_key t = (td_email d, td_task d, td_round d)"
  by (auto simp: task_conflicts_def task_key_def)

lemma insert_task_keeps_distinct:
  assumes "distinct (map task_key (tasks db))"
  shows "distinct (map task_key (tasks (snd (insert_task engine_ok now db d))))"
proof (cases engine_ok)
  case False
  then show ?thesis using assms by (simp add: insert_task_def)
next
  case True
  have "distinct (map task_key (filter (\<lambda>t. \<not> task_conflicts d t) (tasks db)))"
    using assms by (rule distinct_map_filter)
  moreover have "(td_email d, td_task d, td_round d)
      \<notin> task_key ` set (filter (\<lambda>t. \<not> task_conflicts d t) (tasks db))"
    by (auto simp: conflicts_iff_key)
  ultimately show ?thesis using True
    by (simp add: insert_task_def task_key_new_row)
qed

lemma insert_task_one_row:
  "length (tasks_with_key (snd (insert_task True now db d)) (td_email d, td_task d, td_round d)) = 1"
  by (simp add: insert_task_def tasks_with_key_def task_key_new_row conflicts_iff_key)

lemma process_row_distinct:
  assumes "process_row env i w row = Some w'" and "distinct (map task_key (tasks (w_db w)))"
  shows "distinct (map task_key (tasks (w_db w')))"
  using assms
  by (auto simp: process_row_def logged_def Let_def split_beta insert_task_keeps_distinct
           split: option.splits if_splits)

lemma process_rows_distinct:
  "distinct (map task_key (tasks (w_db w))) \<Longrightarrow>
   distinct (map task_key (tasks (w_db (process_rows env i w rows))))"
proof (induction rows arbitrary: i w)
  case Nil
  then show ?case by simp
next
  case (Cons row rows)
  show ?case
  proof (cases "process_row env i w row")
    case None
    then show ?thesis using Cons.prems by simp
  next
    case (Some w')
    then have "distinct (map task_key (tasks (w_db w')))"
      using Cons.prems by (rule process_row_distinct)
    then show ?thesis using Some Cons.IH by simp
  qed
qed

lemma process_completion_distinct:
  "distinct (map task_key (tasks (w_db w))) \<Longrightarrow>
   distinct (map task_key (tasks (w_db (process_completion env i w repo))))"
  by (auto simp: process_completion_def logged_def Let_def split_beta insert_task_keeps_distinct
           split: option.splits if_splits)

lemma process_completions_distinct:
  "distinct (map task_key (tasks (w_db w))) \<Longrightarrow>
   distinct (map task_key (tasks (w_db (process_completions env i w rs))))"
  by (induction rs arbitrary: i w) (simp_all add: process_completion_distinct)

lemma retry_tasks_db: "w_db (retry_tasks env i w ts) = w_db w"
  by (induction ts arbitrary: i w) (simp_all add: Let_def logged_def)

lemma insert_repo_tasks: "tasks (snd (insert_repo ok now db d)) = tasks db"
  by (simp add: insert_repo_def split: option.splits)

lemma receive_notification_tasks:
  "tasks (snd (receive_notification rf ok now db req)) = tasks db"
  by (simp add: receive_notification_def Let_def split_beta insert_repo_tasks
           split: request.splits option.splits)

lemma apply_op_distinct:
  "distinct (map task_key (tasks (w_db w))) \<Longrightarrow>
   distinct (map task_key (tasks (w_db (apply_op op w))))"
  by (cases op)
     (simp_all add: insert_task_keeps_distinct process_submissions_def process_rows_distinct
        process_round1_completions_def process_completions_distinct
        retry_failed_round2_tasks_def retry_tasks_db receive_notification_tasks
        split: option.splits)

lemma run_ops_distinct:
  "distinct (map task_key (tasks (w_db w))) \<Longrightarrow>
   distinct (map task_key (tasks (w_db (run_ops ops w))))"
  by (induction ops arbitrary: w) (simp_all add: apply_op_distinct)

lemma distinct_count_le_one:
  "distinct (map f xs) \<Longrightarrow> length (filter (\<lambda>x. f x = k) xs) \<le> 1"
  by (induction xs) (auto simp: filter_empty_conv image_iff)

lemma task_exists_iff:
  "task_exists db (Some e) (Some t) (Some r) \<longleftrightarrow> tasks_with_key db (e, t, r) \<noteq> []"
  by (auto simp: task_exists_def tasks_with_key_def task_key_def sql_eq_def sql_and_def
        sql_where_def filter_empty_conv)

lemma insert_task_length_existing:
  assumes "distinct (map task_key (tasks db))"
    and "task_exists db (Some (td_email d)) (Some (td_task d)) (Some (td_round d))"
  shows "length (tasks (snd (insert_task True now db d))) = length (tasks db)"
proof -
  let ?k = "(td_email d, td_task d, td_round d)"
  have "length (tasks_with_key db ?k) \<le> 1"
    unfolding tasks_with_key_def using assms(1) by (rule distinct_count_le_one)
  moreover have "tasks_with_key db ?k \<noteq> []" using assms(2) by (simp add: task_exists_iff)
  ultimately have one: "length (filter (\<lambda>t. task_key t = ?k) (tasks db)) = 1"
    unfolding tasks_with_key_def by (cases "filter (\<lambda>t. task_key t = ?k) (tasks db)") auto
  have "length (tasks db) = length (filter (\<lambda>t. task_key t = ?k) (tasks db))
          + length (filter (\<lambda>t. \<not> task_key t = ?k) (tasks db))"
    by (rule sum_length_filter_compl [symmetric])
  then show ?thesis using one
    by (simp add: insert_task_def conflicts_iff_key)
qed

lemma insert_task_row_under_key:
  "tasks_with_key (snd (insert_task True now db d)) (td_email d, td_task d, td_round d)
     = [new_task_row (Suc (tasks_seq db)) now d]"
  by (simp add: insert_task_def tasks_with_key_def task_key_new_row conflicts_iff_key)

lemma insert_task_other_keys:
  "k \<noteq> (td_email d, td_task d, td_round d) \<Longrightarrow>
   tasks_with_key (snd (insert_task engine_ok now db d)) k = tasks_with_key db k"
  by (cases engine_ok)
     (auto simp: insert_task_def tasks_with_key_def task_key_new_row conflicts_iff_key
        intro: filter_cong)

text \<open>
  Claim C3. After every history of upserts, issuer sweeps (round 1, round 2, retry) and
  notifications, run on a fresh store, the tasks table holds at most one row per
  (email, task, round): the keys of its rows are pairwise distinct. A successful
  \<^verbatim>\<open>insert_task\<close> replaces: the rows under the inserted key are then exactly the one new
  row, which carries the values just inserted under the next id, and the rows under
  every other key are the ones that were there, in their order. So exactly one row has
  the inserted key, and when a row with that key was there before, the table has as many
  rows after as before.
\<close>

theorem one_task_row_per_key:
  "distinct (map task_key (tasks (w_db (run_ops ops fresh_world))))
   \<and> length (tasks_with_key (w_db (run_ops ops fresh_world)) k) \<le> 1
   \<and> tasks_with_key (snd (insert_task True now (w_db (run_ops ops fresh_world)) d))
         (td_email d, td_task d, td_round d)
       = [new_task_row (Suc (tasks_seq (w_db (run_ops ops fresh_world)))) now d]
   \<and> (k \<noteq> (td_email d, td_task d, td_round d)
        \<longrightarrow> tasks_with_key (snd (insert_task True now (w_db (run_ops ops fresh_world)) d)) k
              = tasks_with_key (w_db (run_ops ops fresh_world)) k)
   \<and> length (tasks_with_key (snd (insert_task True now (w_db (run_ops ops fresh_world)) d))
               (td_email d, td_task d, td_round d)) = 1
   \<and> (task_exists (w_db (run_ops ops fresh_world))
          (Some (td_email d)) (Some (td_task d)) (Some (td_round d))
        \<longrightarrow> length (tasks (snd (insert_task True now (w_db (run_ops ops fresh_world)) d)))
              = length (tasks (w_db (run_ops ops fresh_world))))"
proof -
  have d: "distinct (map task_key (tasks (w_db (run_ops ops fresh_world))))"
    by (rule run_ops_distinct) (simp add: fresh_world_def init_database_def)
  then have "length (tasks_with_key (w_db (run_ops ops fresh_world)) k) \<le> 1"
    unfolding tasks_with_key_def by (rule distinct_count_le_one)
  with d show ?thesis
    by (simp add: insert_task_one_row insert_task_length_existing insert_task_row_under_key
          insert_task_other_keys)
qed

text \<open>
  The same at a concrete history: the round-1 sweep runs twice over the sample student,
  drawing the same template both times. The table then holds one row under the
  student's key, with the nonce of the second sweep. Upserting the sample task puts its
  row, with its nonce, in the place of that row; upserting the same task for another
  student leaves that row as it is.
\<close>

theorem one_task_row_per_key_witness:
  "task_exists (w_db (run_ops swept_twice fresh_world))
     (Some ''a@x.edu'') (Some ''todo-manager-47802'') (Some 1)
   \<and> length (tasks (w_db (run_ops swept_twice fresh_world))) = 1
   \<and> map t_nonce (tasks_with_key (w_db (run_ops swept_twice fresh_world))
         (''a@x.edu'', ''todo-manager-47802'', 1)) = [''N2'']
   \<and> tasks_with_key (snd (insert_task True ''2025-01-01T12:00:00''
           (w_db (run_ops swept_twice fresh_world)) sample_task))
         (''a@x.edu'', ''todo-manager-47802'', 1)
       = [new_task_row 3 ''2025-01-01T12:00:00'' sample_task]
   \<and> t_nonce (new_task_row 3 ''2025-01-01T12:00:00'' sample_task) = ''N1''
   \<and> length (tasks (snd (insert_task True ''2025-01-01T12:00:00''
        (w_db (run_ops swept_twice fresh_world)) sample_task))) = 1
   \<and> (''a@x.edu'', ''todo-manager-47802'', 1)
       \<noteq> (td_email other_task, td_task other_task, td_round other_task)
   \<and> map t_nonce (tasks_with_key (snd (insert_task True ''2025-01-01T12:00:00''
           (w_db (run_ops swept_twice fresh_world)) other_task))
         (''a@x.edu'', ''todo-manager-47802'', 1)) = [''N2'']"
proof -
  let ?db = "w_db (run_ops swept_twice fresh_world)"
  let ?k = "(''a@x.edu'', ''todo-manager-47802'', 1::int)"
  let ?now = "''2025-01-01T12:00:00''"
  have keys: "map (\<lambda>t. (task_key t, t_nonce t)) (tasks ?db) = [(?k, ''N2'')]"
    and seq: "tasks_seq ?db = 2"
    by (simp_all add: swept_twice_def fresh_world_def process_submissions_def process_row_def
        sample_csv_def strip_def py_space_def task_exists_def sql_eq_def sql_and_def
        sql_where_def generate_task_def Let_def select_template_def template_ids_def
        sample_issuer_env_def sample_md5_def round1_template_def generate_task_id_def
        send_task_def task_record_def insert_task_def logged_def init_database_def
        new_task_row_def task_conflicts_def task_key_def)
  from keys obtain t where t: "tasks ?db = [t]" "task_key t = ?k" "t_nonce t = ''N2''"
    by auto
  have len: "length (tasks ?db) = 1"
    by (simp add: t)
  have under: "map t_nonce (tasks_with_key ?db ?k) = [''N2'']"
    by (simp add: tasks_with_key_def t)
  have key: "(td_email sample_task, td_task sample_task, td_round sample_task) = ?k"
    by (simp add: sample_task_def)
  have other: "?k \<noteq> (td_email other_task, td_task other_task, td_round other_task)"
    by (simp add: other_task_def sample_task_def)
  have ex: "task_exists ?db (Some (td_email sample_task)) (Some (td_task sample_task))
              (Some (td_round sample_task))"
    by (simp add: task_exists_iff key tasks_with_key_def t)
  note mine = one_task_row_per_key [of swept_twice ?k ?now sample_task]
  note theirs = one_task_row_per_key [of swept_twice ?k ?now other_task]
  have new: "tasks_with_key (snd (insert_task True ?now ?db sample_task)) ?k
               = [new_task_row 3 ?now sample_task]"
    using mine by (simp add: key seq)
  have same: "length (tasks (snd (insert_task True ?now ?db sample_task))) = length (tasks ?db)"
    using mine ex by blast
  have kept: "tasks_with_key (snd (insert_task True ?now ?db other_task)) ?k
               = tasks_with_key ?db ?k"
    using theirs other by blast
  have n1: "t_nonce (new_task_row 3 ?now sample_task) = ''N1''"
    by (simp add: new_task_row_def sample_task_def)
  from ex key len under new same kept n1 other show ?thesis
    by simp
qed

subsection \<open>The dedup gate of round 1\<close>

lemma sql_and_None_right: "sql_and (sql_and a None) c \<noteq> Some True"
  by (simp add: sql_and_def)

lemma task_exists_null_task: "task_exists db email None round_num = False"
  by (simp add: task_exists_def sql_eq_def sql_where_def sql_and_None_right)

text \<open>
  The round-1 sweep never takes its skip branch: its gate is the call above, so no run of
  \<^verbatim>\<open>process_submissions\<close> adds a skip to the trace.
\<close>

lemma process_row_never_skips:
  "process_row env i w row = Some w' \<Longrightarrow> skipped (w_trace w') = skipped (w_trace w)"
  by (auto simp: process_row_def task_exists_null_task Let_def split_beta logged_def
        skipped_def split: option.splits)

lemma process_rows_never_skip:
  "skipped (w_trace (process_rows env i w rows)) = skipped (w_trace w)"
proof (induction rows arbitrary: i w)
  case Nil
  show ?case by simp
next
  case (Cons row rows)
  show ?case
  proof (cases "process_row env i w row")
    case None
    then show ?thesis by simp
  next
    case (Some w')
    then show ?thesis using Cons.IH [of "Suc i" w'] process_row_never_skips [OF Some] by simp
  qed
qed

lemma round1_sweep_never_skips:
  "skipped (w_trace (process_submissions env w submissions_file)) = skipped (w_trace w)"
  by (simp add: process_submissions_def process_rows_never_skip split: option.splits)

text \<open>
  Claim C10. For every database, every email and every round number,
  \<^verbatim>\<open>task_exists\<close> called with \<^verbatim>\<open>None\<close> for the task returns \<^verbatim>\<open>False\<close>, whatever rows the
  tasks table holds: the NULL parameter makes \<^verbatim>\<open>task = ?\<close> unknown on every row, so the
  count is zero. This is the gate of the round-1 sweep, which therefore skips nobody.
\<close>

theorem task_exists_none_task_false:
  "task_exists db email None round_num = False
   \<and> skipped (w_trace (process_submissions env w submissions_file)) = skipped (w_trace w)"
  by (simp add: task_exists_null_task round1_sweep_never_skips)

text \<open>
  On the sample store: \<^verbatim>\<open>a@x.edu\<close> has a round-1 task, \<^verbatim>\<open>task_exists\<close> finds it under its
  task id, and answers \<^verbatim>\<open>False\<close> when asked with \<^verbatim>\<open>None\<close>.
\<close>

theorem task_exists_none_task_false_witness:
  "get_tasks sample_db (Some ''a@x.edu'') (Some 1) \<noteq> []
   \<and> task_exists sample_db (Some ''a@x.edu'') (Some ''todo-manager-47802'') (Some 1)
   \<and> task_exists sample_db (Some ''a@x.edu'') None (Some 1) = False"
proof -
  have rows: "tasks sample_db = [new_task_row 1 ''2025-01-01T10:00:00'' sample_task]"
    by (simp add: sample_db_def insert_task_def init_database_def)
  have "get_tasks sample_db (Some ''a@x.edu'') (Some 1) \<noteq> []"
    by (simp add: get_tasks_def rows new_task_row_def sample_task_def truthy_str_def
          truthy_int_def sql_eq_def sql_and_def sql_where_def)
  moreover have "task_exists sample_db (Some ''a@x.edu'') (Some ''todo-manager-47802'') (Some 1)"
    by (simp add: task_exists_def rows new_task_row_def sample_task_def sql_eq_def sql_and_def
          sql_where_def)
  ultimately show ?thesis
    using task_exists_none_task_false [of sample_db "Some ''a@x.edu''" "Some 1"] by simp
qed

text \<open>
  For every row of the submissions file that has its three columns, the sweep generates a
  task, mints a nonce, posts the task to the student's endpoint and hands it to the
  store, whatever tasks the student already has.
\<close>

lemma select_template_known:
  "select_template env email date_hour \<in> set template_ids"
  unfolding select_template_def by (rule nth_mem) (simp add: template_ids_def)

lemma round1_template_known:
  "template_id \<in> set template_ids \<Longrightarrow> \<exists>tp. round1_template template_id = Some tp"
  by (auto simp: template_ids_def round1_template_def)

lemma generate_task_some:
  "\<exists>p. generate_task env i email endpoint secret = Some p
       \<and> p_email p = email \<and> p_round p = 1 \<and> p_nonce p = ie_uuid4 env i"
proof -
  obtain tp where "round1_template (select_template env email (ie_hour env i)) = Some tp"
    using round1_template_known [OF select_template_known] by blast
  then show ?thesis by (simp add: generate_task_def Let_def)
qed

lemma round1_row_always_issues:
  assumes "c_email row = Some e" "c_endpoint row = Some ep" "c_secret row = Some s"
  shows "\<exists>w' p. process_row env i w row = Some w'
           \<and> generate_task env i (strip e) (strip ep) (strip s) = Some p
           \<and> minted (w_trace w') = minted (w_trace w) @ [ie_uuid4 env i]
           \<and> posted (w_trace w') = posted (w_trace w) @ [(strip ep, p)]
           \<and> stored (w_trace w')
               = stored (w_trace w) @ [task_record p (strip ep) (send_task env i (strip ep) p)]"
proof -
  obtain p where p: "generate_task env i (strip e) (strip ep) (strip s) = Some p"
      "p_nonce p = ie_uuid4 env i"
    using generate_task_some [of env i "strip e" "strip ep" "strip s"] by blast
  then show ?thesis
    using assms
    by (simp add: process_row_def task_exists_null_task Let_def split_beta logged_def
          minted_def posted_def stored_def)
qed

text \<open>
  Claim C2 says that a student who already has a round-1 task is skipped by the round-1
  sweep: nothing generated, no nonce minted, no delivery, no write. The source means
  this (its comment reads "Check if round 1 task already exists", its message "Skipping
  ...: Round 1 task already exists"), but the gate never fires. Evaluated on the sample:
  the store holds the round-1 task of \<^verbatim>\<open>a@x.edu\<close> with nonce \<^verbatim>\<open>N1\<close>; the sweep over that
  student skips nobody, mints \<^verbatim>\<open>N2\<close>, posts to the student's endpoint, writes, and the
  stored row now carries \<^verbatim>\<open>N2\<close>.
\<close>

theorem round1_sweep_reissues:
  "map (\<lambda>t. (t_email t, t_round t, t_nonce t)) (tasks sample_db) = [(''a@x.edu'', 1, ''N1'')]
   \<and> skipped (w_trace sample_rerun) = []
   \<and> minted (w_trace sample_rerun) = [''N2'']
   \<and> map fst (posted (w_trace sample_rerun)) = [''http://student/api/build'']
   \<and> map td_nonce (stored (w_trace sample_rerun)) = [''N2'']
   \<and> map (\<lambda>t. (t_email t, t_round t, t_nonce t)) (tasks (w_db sample_rerun))
       = [(''a@x.edu'', 1, ''N2'')]"
  by (simp add: sample_rerun_def process_submissions_def process_row_def sample_csv_def
      strip_def py_space_def task_exists_def sql_eq_def sql_and_def sql_where_def
      generate_task_def Let_def
      select_template_def template_ids_def sample_issuer_env_def sample_md5_def round1_template_def
      generate_task_id_def send_task_def task_record_def insert_task_def logged_def
      sample_db_def init_database_def new_task_row_def sample_task_def task_conflicts_def
      minted_def posted_def stored_def skipped_def)

subsection \<open>The submission gate\<close>

lemma sample_db_rows:
  "tasks sample_db = [new_task_row 1 ''2025-01-01T10:00:00'' sample_task]"
  by (simp add: sample_db_def insert_task_def init_database_def)

lemma get_tasks_named:
  "e \<noteq> [] \<Longrightarrow> r \<noteq> 0 \<Longrightarrow>
   get_tasks db (Some e) (Some r) = filter (\<lambda>t. t_email t = e \<and> t_round t = r) (tasks db)"
  unfolding get_tasks_def
  by (rule filter_cong)
     (auto simp: truthy_str_def truthy_int_def sql_eq_def sql_and_def sql_where_def)

lemma gate_for_named_student:
  assumes "n_email n = Val e" "e \<noteq> []" "n_round n = Val r" "r \<noteq> 0"
    and "n_task n = Val t" "n_nonce n = Val c"
    and "n_repo_url n = Val u" "n_commit_sha n = Val s" "n_pages_url n = Val p"
  shows "receive_notification read_fault engine_ok now db (Json n) =
     (case read_fault of
        Some msg \<Rightarrow> ((ErrorBody (''Internal server error: '' @ msg), 500), db)
      | None \<Rightarrow>
          if \<exists>x \<in> set (tasks db). t_email x = e \<and> t_task x = t \<and> t_round x = r \<and> t_nonce x = c
          then (if engine_ok
                then ((SuccessBody ''Repo submission received'', 200),
                      db\<lparr>repos := filter (\<lambda>x. \<not> repo_conflicts e t r x) (repos db)
                             @ [\<lparr>r_id = Suc (repos_seq db), r_timestamp = now, r_email = e,
                                 r_task = t, r_round = r, r_nonce = c, r_repo_url = u,
                                 r_commit_sha = s, r_pages_url = p\<rparr>],
                         repos_seq := Suc (repos_seq db)\<rparr>)
                else ((ErrorBody ''Failed to store repo submission'', 500), db))
          else ((ErrorBody ''No matching task found for the provided email, task, round, and nonce'',
                 400), db))"
proof -
  have fm: "first_missing n = None"
    using assms by (simp add: first_missing_def absent_def)
  have "matching_task n (get_tasks db (Some e) (Some r)) = None
        \<longleftrightarrow> \<not> (\<exists>x \<in> set (tasks db). t_email x = e \<and> t_task x = t \<and> t_round x = r \<and> t_nonce x = c)"
    using assms by (auto simp: matching_task_def find_None_iff get_tasks_named matches_def item_def)
  then show ?thesis
    using assms fm
    by (auto simp: receive_notification_def item_def insert_repo_def Let_def split: option.splits)
qed

text \<open>
  Claim C1 says that a notification with all required fields is recorded if and only if
  a task with the same email, task, round and nonce was issued, that it is answered 400
  without a write otherwise, 200 on a match, and 500 on a storage failure. The lemma
  above is that statement for a notification whose email is a non-empty string and whose
  round is a non-zero integer. With the empty string as email the filter \<^verbatim>\<open>if email:\<close>
  of \<^verbatim>\<open>get_tasks\<close> is off, so the task of any student matches, although the source's
  own rejection message speaks of "the provided email, task, round, and nonce".
  Evaluated on the sample: no task has the empty email, yet the gate answers 200 and
  records a submission under the empty email.
\<close>

theorem gate_accepts_empty_email:
  "filter (\<lambda>t. t_email t = []) (tasks sample_db) = []
   \<and> fst (receive_notification None True ''2025-01-02T09:00:00'' sample_db
            (Json anonymous_notification))
       = (SuccessBody ''Repo submission received'', 200)
   \<and> map (\<lambda>r. (r_email r, r_task r, r_round r, r_nonce r))
        (repos (snd (receive_notification None True ''2025-01-02T09:00:00'' sample_db
            (Json anonymous_notification))))
       = [([], ''todo-manager-47802'', 1, ''N1'')]"
  by (simp add: receive_notification_def first_missing_def absent_def anonymous_notification_def
       item_def get_tasks_def truthy_str_def truthy_int_def sql_eq_def sql_and_def sql_where_def
       matching_task_def matches_def sample_db_rows new_task_row_def sample_task_def
       insert_repo_def Let_def sample_db_def insert_task_def init_database_def)

subsection \<open>The round-2 retry sweep\<close>

lemma retry_tasks_trace:
  "posted (w_trace (retry_tasks env i w ts))
     = posted (w_trace w) @ map (\<lambda>t. (t_endpoint t, retry_payload t)) ts
   \<and> minted (w_trace (retry_tasks env i w ts)) = minted (w_trace w)
   \<and> stored (w_trace (retry_tasks env i w ts)) = stored (w_trace w)"
  by (induction ts arbitrary: i w)
     (simp_all add: Let_def logged_def posted_def minted_def stored_def)

lemma failed_tasks_set:
  "set (failed_tasks db) = {t \<in> set (tasks db). t_round t = 2 \<and> t_statuscode t \<noteq> Some 200}"
  by (auto simp: failed_tasks_def get_tasks_def truthy_str_def truthy_int_def sql_eq_def
        sql_and_def sql_where_def)

text \<open>
  Claim C9. The retry sweep selects the round-2 tasks whose stored status is not 200.
  For each one it posts a payload rebuilt from the stored row, carrying the stored nonce;
  it generates no task (so mints no nonce) and hands nothing to the store, and the store
  after the sweep equals the store before it, stored status codes included, whatever
  the outcome of the deliveries.
\<close>

theorem retry_keeps_nonce_and_rows:
  "w_db (retry_failed_round2_tasks env w) = w_db w
   \<and> set (failed_tasks (w_db w))
       = {t \<in> set (tasks (w_db w)). t_round t = 2 \<and> t_statuscode t \<noteq> Some 200}
   \<and> posted (w_trace (retry_failed_round2_tasks env w))
       = posted (w_trace w) @ map (\<lambda>t. (t_endpoint t, retry_payload t)) (failed_tasks (w_db w))
   \<and> p_nonce (retry_payload t) = t_nonce t
   \<and> minted (w_trace (retry_failed_round2_tasks env w)) = minted (w_trace w)
   \<and> stored (w_trace (retry_failed_round2_tasks env w)) = stored (w_trace w)"
  by (simp add: retry_failed_round2_tasks_def retry_tasks_db retry_tasks_trace failed_tasks_set
        retry_payload_def)

text \<open>
  On the sample store: the task with status 503 is retried with its nonce \<^verbatim>\<open>N7\<close>, the
  retry is answered 200, and the store still says 503.
\<close>

theorem retry_keeps_nonce_and_rows_witness:
  "map (\<lambda>t. (t_nonce t, t_statuscode t)) (tasks round2_db)
     = [(''N7'', Some 503), (''N8'', Some 200)]
   \<and> w_db (retry_failed_round2_tasks sample_round2_env \<lparr>w_db = round2_db, w_trace = []\<rparr>)
       = round2_db
   \<and> map (\<lambda>(endpoint, p). p_nonce p)
       (posted (w_trace (retry_failed_round2_tasks sample_round2_env
          \<lparr>w_db = round2_db, w_trace = []\<rparr>))) = [''N7'']
   \<and> minted (w_trace (retry_failed_round2_tasks sample_round2_env
          \<lparr>w_db = round2_db, w_trace = []\<rparr>)) = []"
proof -
  let ?w = "\<lparr>w_db = round2_db, w_trace = []\<rparr>"
  have rows: "map (\<lambda>t. (t_nonce t, t_statuscode t)) (tasks round2_db)
                = [(''N7'', Some 503), (''N8'', Some 200)]"
    by (simp add: round2_db_def insert_task_def init_database_def new_task_row_def
          failed_round2_task_def delivered_round2_task_def sample_task_def task_conflicts_def)
  have failed: "map t_nonce (failed_tasks round2_db) = [''N7'']"
    by (simp add: failed_tasks_def get_tasks_def truthy_str_def truthy_int_def sql_eq_def
          sql_and_def sql_where_def round2_db_def insert_task_def init_database_def
          new_task_row_def failed_round2_task_def delivered_round2_task_def sample_task_def
          task_conflicts_def)
  from retry_keeps_nonce_and_rows [of sample_round2_env ?w]
  have "w_db (retry_failed_round2_tasks sample_round2_env ?w) = round2_db"
    and "posted (w_trace (retry_failed_round2_tasks sample_round2_env ?w))
          = map (\<lambda>t. (t_endpoint t, retry_payload t)) (failed_tasks round2_db)"
    and "minted (w_trace (retry_failed_round2_tasks sample_round2_env ?w)) = []"
    by (simp_all add: posted_def minted_def)
  with rows failed show ?thesis
    by (simp add: o_def split_beta retry_payload_def)
qed

subsection \<open>The retrying notifier\<close>

declare notify_loop.simps [simp del]

lemma loop_done: "\<not> a < m \<Longrightarrow> notify_loop post u p m a = (False, [])"
  by (subst notify_loop.simps) simp

lemma loop_ok:
  "a < m \<Longrightarrow> post a = Some 200 \<Longrightarrow> notify_loop post u p m a = (True, [Attempt u p (post a)])"
  by (subst notify_loop.simps) simp

lemma loop_retry:
  "a < m \<Longrightarrow> post a \<noteq> Some 200 \<Longrightarrow>
   notify_loop post u p m a =
     (fst (notify_loop post u p m (Suc a)),
      Attempt u p (post a) # (if a + 1 < m then [Sleep (2 ^ a)] else [])
        @ snd (notify_loop post u p m (Suc a)))"
  by (subst notify_loop.simps) (simp add: split_beta)

lemma attempt_count_simps:
  "attempt_count [] = 0"
  "attempt_count (Attempt u p r # evs) = Suc (attempt_count evs)"
  "attempt_count (Sleep d # evs) = attempt_count evs"
  "attempt_count (xs @ ys) = attempt_count xs + attempt_count ys"
  "attempt_count (if c then [Sleep d] else []) = 0"
  by (simp_all add: attempt_count_def)

lemma loop_attempts_pos: "a < m \<Longrightarrow> 0 < attempt_count (snd (notify_loop post u p m a))"
  by (cases "post a = Some 200") (simp_all add: loop_ok loop_retry attempt_count_simps)

lemma backoff_from_0: "backoff_from post u p a 0 = []"
  by (simp add: backoff_from_def)

lemma backoff_from_Suc:
  "backoff_from post u p a (Suc n) =
     Attempt u p (post a) # (if 0 < n then [Sleep (2 ^ a)] else []) @ backoff_from post u p (Suc a) n"
  by (simp add: backoff_from_def upt_conv_Cons)

lemma loop_trace:
  "snd (notify_loop post u p m a)
     = backoff_from post u p a (attempt_count (snd (notify_loop post u p m a)))"
proof (induction post u p m a rule: notify_loop.induct)
  case (1 post u p m a)
  show ?case
  proof (cases "a < m")
    case False
    then show ?thesis by (simp add: loop_done attempt_count_simps backoff_from_0)
  next
    case True
    show ?thesis
    proof (cases "post a = Some 200")
      case ok: True
      then show ?thesis using True
        by (simp add: loop_ok attempt_count_simps backoff_from_Suc backoff_from_0)
    next
      case no: False
      let ?rest = "snd (notify_loop post u p m (Suc a))"
      have ih: "?rest = backoff_from post u p (Suc a) (attempt_count ?rest)"
        using "1.IH" [OF True no refl] by simp
      have pos: "Suc a < m \<longleftrightarrow> 0 < attempt_count ?rest"
      proof (cases "Suc a < m")
        case True
        then show ?thesis by (simp add: loop_attempts_pos)
      next
        case False
        then show ?thesis by (simp add: loop_done attempt_count_simps)
      qed
      have "snd (notify_loop post u p m a)
              = Attempt u p (post a) # (if Suc a < m then [Sleep (2 ^ a)] else []) @ ?rest"
        using True no by (simp add: loop_retry)
      moreover have "attempt_count (snd (notify_loop post u p m a)) = Suc (attempt_count ?rest)"
        using True no by (simp add: loop_retry attempt_count_simps)
      ultimately show ?thesis
        using ih pos by (simp add: backoff_from_Suc)
    qed
  qed
qed

lemma loop_bound: "a + attempt_count (snd (notify_loop post u p m a)) \<le> max a m"
proof (induction post u p m a rule: notify_loop.induct)
  case (1 post u p m a)
  show ?case
  proof (cases "a < m")
    case False
    then show ?thesis by (simp add: loop_done attempt_count_simps)
  next
    case True
    show ?thesis
    proof (cases "post a = Some 200")
      case ok: True
      then show ?thesis using True by (simp add: loop_ok attempt_count_simps)
    next
      case no: False
      have "Suc a + attempt_count (snd (notify_loop post u p m (Suc a))) \<le> max (Suc a) m"
        using "1.IH" [OF True no refl] by simp
      then show ?thesis using True no by (simp add: loop_retry attempt_count_simps)
    qed
  qed
qed

lemma loop_success:
  "fst (notify_loop post u p m a) \<Longrightarrow>
     0 < attempt_count (snd (notify_loop post u p m a))
     \<and> post (a + attempt_count (snd (notify_loop post u p m a)) - 1) = Some 200"
proof (induction post u p m a rule: notify_loop.induct)
  case (1 post u p m a)
  show ?case
  proof (cases "a < m")
    case False
    then show ?thesis using "1.prems" by (simp add: loop_done)
  next
    case True
    show ?thesis
    proof (cases "post a = Some 200")
      case ok: True
      then show ?thesis using True by (simp add: loop_ok attempt_count_simps)
    next
      case no: False
      have "fst (notify_loop post u p m (Suc a))"
        using "1.prems" True no by (simp add: loop_retry)
      then have "0 < attempt_count (snd (notify_loop post u p m (Suc a)))
         \<and> post (Suc a + attempt_count (snd (notify_loop post u p m (Suc a))) - 1) = Some 200"
        using "1.IH" [OF True no refl] by simp
      then show ?thesis using True no by (simp add: loop_retry attempt_count_simps)
    qed
  qed
qed

lemma loop_earlier_fail:
  "a \<le> k \<Longrightarrow> k + 1 < a + attempt_count (snd (notify_loop post u p m a)) \<Longrightarrow> post k \<noteq> Some 200"
proof (induction post u p m a rule: notify_loop.induct)
  case (1 post u p m a)
  show ?case
  proof (cases "a < m")
    case False
    then show ?thesis using "1.prems" by (simp add: loop_done attempt_count_simps)
  next
    case True
    show ?thesis
    proof (cases "post a = Some 200")
      case ok: True
      then show ?thesis using True "1.prems" by (simp add: loop_ok attempt_count_simps)
    next
      case no: False
      show ?thesis
      proof (cases "k = a")
        case True
        then show ?thesis using no by simp
      next
        case False
        then have "Suc a \<le> k" using "1.prems"(1) by simp
        moreover have "k + 1 < Suc a + attempt_count (snd (notify_loop post u p m (Suc a)))"
          using "1.prems"(2) True no by (simp add: loop_retry attempt_count_simps)
        ultimately show ?thesis using "1.IH" [OF True no refl] by simp
      qed
    qed
  qed
qed

lemma loop_failure:
  "\<not> fst (notify_loop post u p m a) \<Longrightarrow>
     a + attempt_count (snd (notify_loop post u p m a)) = max a m"
proof (induction post u p m a rule: notify_loop.induct)
  case (1 post u p m a)
  show ?case
  proof (cases "a < m")
    case False
    then show ?thesis by (simp add: loop_done attempt_count_simps)
  next
    case True
    show ?thesis
    proof (cases "post a = Some 200")
      case ok: True
      then show ?thesis using True "1.prems" by (simp add: loop_ok)
    next
      case no: False
      have "\<not> fst (notify_loop post u p m (Suc a))"
        using "1.prems" True no by (simp add: loop_retry)
      then have "Suc a + attempt_count (snd (notify_loop post u p m (Suc a))) = max (Suc a) m"
        using "1.IH" [OF True no refl] by simp
      then show ?thesis using True no by (simp add: loop_retry attempt_count_simps)
    qed
  qed
qed

lemma delays_backoff: "delays (backoff_from post u p a n) = map (\<lambda>k. 2 ^ k) [a ..< a + n - 1]"
proof (induction n arbitrary: a)
  case 0
  show ?case by (simp add: backoff_from_0 delays_def)
next
  case (Suc n)
  have "delays (backoff_from post u p a (Suc n))
          = (if 0 < n then [2 ^ a] else []) @ delays (backoff_from post u p (Suc a) n)"
    by (simp add: backoff_from_Suc delays_def)
  also have "\<dots> = (if 0 < n then [2 ^ a] else []) @ map (\<lambda>k. 2 ^ k) [Suc a ..< Suc a + n - 1]"
    by (simp add: Suc.IH)
  also have "\<dots> = map (\<lambda>k. 2 ^ k) [a ..< a + Suc n - 1]"
    by (cases n) (simp_all add: upt_rec [of a])
  finally show ?case .
qed

lemma powers_increasing: "sorted_wrt (<) (map (\<lambda>k. (2::nat) ^ k) [a ..< b])"
proof -
  have "sorted_wrt (\<lambda>x y. (2::nat) ^ x < 2 ^ y) [a ..< b]"
    by (rule sorted_wrt_mono_rel [OF _ sorted_wrt_upt]) simp
  then show ?thesis by (simp add: sorted_wrt_map)
qed


lemma loop_finds:
  "a \<le> k \<Longrightarrow> k < m \<Longrightarrow> post k = Some 200 \<Longrightarrow> fst (notify_loop post u p m a)"
proof (induction post u p m a rule: notify_loop.induct)
  case (1 post u p m a)
  have am: "a < m" using "1.prems" by simp
  show ?case
  proof (cases "post a = Some 200")
    case True
    then show ?thesis using am by (simp add: loop_ok)
  next
    case False
    then have "k \<noteq> a" using "1.prems" by auto
    then have "Suc a \<le> k" using "1.prems" by simp
    then have "fst (notify_loop post u p m (Suc a))"
      using "1.IH" [OF am False refl] "1.prems" by simp
    then show ?thesis using am False by (simp add: loop_retry)
  qed
qed

lemma notify_with_url:
  "url \<noteq> [] \<Longrightarrow> nd_evaluation_url data = Some url \<Longrightarrow>
   notify_evaluation_api post data m = notify_loop post url (payload_of data) m 0"
  by (simp add: notify_evaluation_api_def payload_of_def)

text \<open>
  Claim C8, as stated, fails for a notice without an evaluation URL: the notifier reports
  failure at once, having made none of its five attempts, even if the evaluator would
  have answered 200.
\<close>

theorem notify_without_url_counterexample:
  "fst (notify_evaluation_api always_ok urlless_notice 5) = False
   \<and> attempt_count (snd (notify_evaluation_api always_ok urlless_notice 5)) = 0"
  by (simp add: notify_evaluation_api_def urlless_notice_def attempt_count_def)

text \<open>
  Claim C8, amended. A notice whose evaluation URL is absent, null or empty is reported
  as failure with no attempt made. For a notice with a non-empty URL: at most
  \<open>max_retries\<close> attempts are made (5 as called); the trace is attempt \<open>0\<close>, a wait of
  \<open>2 ^ 0\<close> seconds, attempt \<open>1\<close>, a wait of \<open>2 ^ 1\<close>, and so on, with no wait after the
  last attempt made, so the waits strictly increase; every attempt before the last one
  made was not answered 200; success is reported exactly when the last attempt made was
  answered 200; and failure is reported only after \<open>max_retries\<close> attempts, none
  answered 200.
\<close>

theorem notify_backoff:
  "(\<not> truthy_str (nd_evaluation_url data)
      \<longrightarrow> notify_evaluation_api post data max_retries = (False, []))
   \<and> (nd_evaluation_url data = Some url \<and> url \<noteq> []
      \<longrightarrow> attempt_count (snd (notify_evaluation_api post data max_retries)) \<le> max_retries
        \<and> snd (notify_evaluation_api post data max_retries)
            = backoff_trace post url (payload_of data)
                (attempt_count (snd (notify_evaluation_api post data max_retries)))
        \<and> delays (snd (notify_evaluation_api post data max_retries))
            = map (\<lambda>k. 2 ^ k)
                [0 ..< attempt_count (snd (notify_evaluation_api post data max_retries)) - 1]
        \<and> sorted_wrt (<) (delays (snd (notify_evaluation_api post data max_retries)))
        \<and> (\<forall>k. k + 1 < attempt_count (snd (notify_evaluation_api post data max_retries))
              \<longrightarrow> post k \<noteq> Some 200)
        \<and> (fst (notify_evaluation_api post data max_retries)
              \<longrightarrow> 0 < attempt_count (snd (notify_evaluation_api post data max_retries))
                \<and> post (attempt_count (snd (notify_evaluation_api post data max_retries)) - 1)
                    = Some 200)
        \<and> (\<not> fst (notify_evaluation_api post data max_retries)
              \<longrightarrow> attempt_count (snd (notify_evaluation_api post data max_retries)) = max_retries
                \<and> (\<forall>k < max_retries. post k \<noteq> Some 200)))"
proof -
  let ?R = "notify_evaluation_api post data max_retries"
  have none: "?R = (False, [])" if "\<not> truthy_str (nd_evaluation_url data)"
    using that by (simp add: notify_evaluation_api_def truthy_str_def split: option.splits)
  have some: "attempt_count (snd ?R) \<le> max_retries
        \<and> snd ?R = backoff_trace post url (payload_of data) (attempt_count (snd ?R))
        \<and> delays (snd ?R) = map (\<lambda>k. 2 ^ k) [0 ..< attempt_count (snd ?R) - 1]
        \<and> sorted_wrt (<) (delays (snd ?R))
        \<and> (\<forall>k. k + 1 < attempt_count (snd ?R) \<longrightarrow> post k \<noteq> Some 200)
        \<and> (fst ?R \<longrightarrow> 0 < attempt_count (snd ?R)
              \<and> post (attempt_count (snd ?R) - 1) = Some 200)
        \<and> (\<not> fst ?R \<longrightarrow> attempt_count (snd ?R) = max_retries
              \<and> (\<forall>k < max_retries. post k \<noteq> Some 200))"
    if u: "nd_evaluation_url data = Some url \<and> url \<noteq> []"
  proof -
    have R: "?R = notify_loop post url (payload_of data) max_retries 0"
      using u by (simp add: notify_with_url)
    have bound: "attempt_count (snd ?R) \<le> max_retries"
      using loop_bound [of 0 post url "payload_of data" max_retries] by (simp add: R)
    have tr: "snd ?R = backoff_trace post url (payload_of data) (attempt_count (snd ?R))"
      unfolding R backoff_trace_def by (rule loop_trace)
    have dl: "delays (snd ?R) = map (\<lambda>k. 2 ^ k) [0 ..< attempt_count (snd ?R) - 1]"
      by (subst tr) (simp add: backoff_trace_def delays_backoff)
    have inc: "sorted_wrt (<) (delays (snd ?R))"
      unfolding dl by (rule powers_increasing)
    have early: "\<forall>k. k + 1 < attempt_count (snd ?R) \<longrightarrow> post k \<noteq> Some 200"
      using loop_earlier_fail [of 0 _ post url "payload_of data" max_retries] by (simp add: R)
    have win: "fst ?R \<longrightarrow> 0 < attempt_count (snd ?R)
                 \<and> post (attempt_count (snd ?R) - 1) = Some 200"
      using loop_success [of post url "payload_of data" max_retries 0] by (simp add: R)
    have lose: "\<not> fst ?R \<longrightarrow> attempt_count (snd ?R) = max_retries
                 \<and> (\<forall>k < max_retries. post k \<noteq> Some 200)"
      using loop_failure [of post url "payload_of data" max_retries 0]
        loop_finds [of 0 _ max_retries post url "payload_of data"]
      by (auto simp: R)
    from bound tr dl inc early win lose show ?thesis by blast
  qed
  from none some show ?thesis by blast
qed

text \<open>
  With an evaluator that answers 503, 503, 200: three attempts, waits of 1 and 2 seconds,
  success.
\<close>

theorem notify_backoff_witness:
  "nd_evaluation_url sample_notice = Some ''http://eval/api/notify''
   \<and> fst (notify_evaluation_api third_time_ok sample_notice 5)
   \<and> attempt_count (snd (notify_evaluation_api third_time_ok sample_notice 5)) = 3
   \<and> delays (snd (notify_evaluation_api third_time_ok sample_notice 5)) = [1, 2]"
proof -
  let ?R = "notify_evaluation_api third_time_ok sample_notice 5"
  have u: "nd_evaluation_url sample_notice = Some ''http://eval/api/notify''
           \<and> ''http://eval/api/notify'' \<noteq> []"
    by (simp add: sample_notice_def)
  have R: "?R = (True, [Attempt ''http://eval/api/notify'' (payload_of sample_notice) (Some 503),
                        Sleep 1,
                        Attempt ''http://eval/api/notify'' (payload_of sample_notice) (Some 503),
                        Sleep 2,
                        Attempt ''http://eval/api/notify'' (payload_of sample_notice) (Some 200)])"
    by (simp add: notify_with_url [of "''http://eval/api/notify''"] sample_notice_def
          notify_loop.simps [of _ _ _ _ 0] notify_loop.simps [of _ _ _ _ "Suc 0"]
          notify_loop.simps [of _ _ _ _ "Suc (Suc 0)"] third_time_ok_def)
  have n: "attempt_count (snd ?R) = 3"
    by (simp add: R attempt_count_def)
  from notify_backoff [of sample_notice third_time_ok 5 "''http://eval/api/notify''"] u
  have "delays (snd ?R) = map (\<lambda>k. 2 ^ k) [0 ..< attempt_count (snd ?R) - 1]"
    by blast
  then have "delays (snd ?R) = [1, 2]"
    by (simp add: n upt_rec)
  with u n R show ?thesis by simp
qed


subsection \<open>The license check\<close>

text \<open>
  \<^verbatim>\<open>str.split\<close> with a separator never returns the empty list, so the first line that
  the oracle's answer is read from always exists.
\<close>

lemma split_on_not_empty: "split_on c s \<noteq> []"
  by (induction s) (auto split: list.splits)














lemma txt_only_tree_files: "rt_file txt_only_tree name \<noteq> NoFile \<longleftrightarrow> name = ''LICENSE.txt''"
  by (simp add: txt_only_tree_def)




subsection \<open>The code-quality check\<close>




subsection \<open>The dynamic check\<close>












subsection \<open>Result rows accumulate\<close>





















end
